theory Spec2Isabelle
  imports Complex_Main
begin

section \<open>Python values at the HTTP boundary\<close>

text \<open>
  The two client modules (\<^verbatim>\<open>backend/ollama_client.py\<close> and
  \<^verbatim>\<open>rag_system/utils/ollama_client.py\<close>) talk to an OpenAI-compatible server through
  the \<^verbatim>\<open>requests\<close> library. The embedding below keeps the client code as it is written
  and makes the library boundary explicit:

  \<^item> text is a \<open>string\<close>; a character stands for a code point below 256;
  \<^item> what \<^verbatim>\<open>json.loads\<close> / \<^verbatim>\<open>response.json()\<close> return is a value of type \<open>json\<close>;
    a Python dict is an association list read with \<open>map_of\<close>;
  \<^item> an exception is a value of \<open>py_exc\<close>, and every operation returns \<open>py_exc + 'a\<close>
    (\<open>Inl\<close>: the exception leaves the operation, \<open>Inr\<close>: the value returned);
  \<^item> the network is a function from the request issued to either the message of the
    \<^verbatim>\<open>requests.exceptions.RequestException\<close> raised or the response received, and every
    operation also returns the list of requests it issued;
  \<^item> console output (\<^verbatim>\<open>print\<close>) is not modelled.
\<close>

datatype json =
    JNull
  | JBool bool
  | JInt int
  | JFloat real
  | JStr string
  | JArr "json list"
  | JObj "(string \<times> json) list"

datatype py_exc =
    KeyError
  | IndexError
  | TypeError
  | AttributeError
  | UnicodeDecodeError
  | JSONDecodeError
  | RecursionError
  | ValueError
  | RequestException string

type_synonym 'a result = "py_exc + 'a"

definition and_then :: "'a result \<Rightarrow> ('a \<Rightarrow> 'b result) \<Rightarrow> 'b result" where
  "and_then x f = (case x of Inl e \<Rightarrow> Inl e | Inr v \<Rightarrow> f v)"

text \<open>\<^verbatim>\<open>try: ... except requests.exceptions.RequestException as e: return h(e)\<close>:
  only a \<open>RequestException\<close> is caught, any other exception propagates.\<close>

definition except_request :: "'a result \<Rightarrow> (string \<Rightarrow> 'a) \<Rightarrow> 'a result" where
  "except_request x h =
     (case x of
        Inl (RequestException msg) \<Rightarrow> Inr (h msg)
      | Inl e \<Rightarrow> Inl e
      | Inr v \<Rightarrow> Inr v)"

subsection \<open>Operations of Python objects used by the clients\<close>

text \<open>\<^verbatim>\<open>if x:\<close> on a decoded JSON value.\<close>

fun truthy :: "json \<Rightarrow> bool" where
  "truthy JNull = False"
| "truthy (JBool b) = b"
| "truthy (JInt n) = (n \<noteq> 0)"
| "truthy (JFloat x) = (x \<noteq> 0)"
| "truthy (JStr s) = (s \<noteq> [])"
| "truthy (JArr xs) = (xs \<noteq> [])"
| "truthy (JObj kvs) = (kvs \<noteq> [])"

text \<open>\<^verbatim>\<open>pat in s\<close> for two strings.\<close>

fun contains_str :: "string \<Rightarrow> string \<Rightarrow> bool" where
  "contains_str pat [] = (pat = [])"
| "contains_str pat (c # cs) = (take (length pat) (c # cs) = pat \<or> contains_str pat cs)"

text \<open>\<^verbatim>\<open>key in v\<close> for a string key: dict membership, list membership, substring test;
  a TypeError for a value that is not a container.\<close>

fun py_in :: "string \<Rightarrow> json \<Rightarrow> bool result" where
  "py_in k (JObj kvs) = Inr (List.member (map fst kvs) k)"
| "py_in k (JArr xs) = Inr (List.member xs (JStr k))"
| "py_in k (JStr s) = Inr (contains_str k s)"
| "py_in k v = Inl TypeError"

text \<open>\<^verbatim>\<open>v[key]\<close> for a string key.\<close>

fun getitem :: "json \<Rightarrow> string \<Rightarrow> json result" where
  "getitem (JObj kvs) k = (case map_of kvs k of Some x \<Rightarrow> Inr x | None \<Rightarrow> Inl KeyError)"
| "getitem v k = Inl TypeError"

text \<open>\<^verbatim>\<open>v[0]\<close>. The keys of a decoded JSON object are strings, so \<open>0\<close> is never one.\<close>

fun getitem0 :: "json \<Rightarrow> json result" where
  "getitem0 (JArr []) = Inl IndexError"
| "getitem0 (JArr (x # xs)) = Inr x"
| "getitem0 (JStr []) = Inl IndexError"
| "getitem0 (JStr (c # cs)) = Inr (JStr [c])"
| "getitem0 (JObj kvs) = Inl KeyError"
| "getitem0 v = Inl TypeError"

text \<open>\<^verbatim>\<open>len(v)\<close>.\<close>

fun py_len :: "json \<Rightarrow> nat result" where
  "py_len (JArr xs) = Inr (length xs)"
| "py_len (JStr s) = Inr (length s)"
| "py_len (JObj kvs) = Inr (length (remdups (map fst kvs)))"
| "py_len v = Inl TypeError"

text \<open>\<^verbatim>\<open>v.get(key, default)\<close>: only a dict has the method.\<close>

fun py_get :: "json \<Rightarrow> string \<Rightarrow> json \<Rightarrow> json result" where
  "py_get (JObj kvs) k d = Inr (case map_of kvs k of Some x \<Rightarrow> x | None \<Rightarrow> d)"
| "py_get v k d = Inl AttributeError"

text \<open>\<^verbatim>\<open>for x in v\<close>: the items visited.\<close>

fun py_iter :: "json \<Rightarrow> json list result" where
  "py_iter (JArr xs) = Inr xs"
| "py_iter (JStr s) = Inr (map (\<lambda>c. JStr [c]) s)"
| "py_iter (JObj kvs) = Inr (map JStr (remdups (map fst kvs)))"
| "py_iter v = Inl TypeError"

text \<open>A list comprehension \<^verbatim>\<open>[f(x) for x in xs]\<close>: the first exception ends it.\<close>

fun map_result :: "('a \<Rightarrow> 'b result) \<Rightarrow> 'a list \<Rightarrow> 'b list result" where
  "map_result f [] = Inr []"
| "map_result f (x # xs) =
     (case f x of
        Inl e \<Rightarrow> Inl e
      | Inr y \<Rightarrow> (case map_result f xs of Inl e \<Rightarrow> Inl e | Inr ys \<Rightarrow> Inr (y # ys)))"

subsection \<open>Strings\<close>

text \<open>\<^verbatim>\<open>str.isspace\<close>, \<^verbatim>\<open>str.strip()\<close> and \<^verbatim>\<open>str.lower()\<close> on code points below 256.\<close>

definition py_isspace :: "char \<Rightarrow> bool" where
  "py_isspace c =
     (let n = (of_char c :: nat)
      in (9 \<le> n \<and> n \<le> 13) \<or> (28 \<le> n \<and> n \<le> 32) \<or> n = 133 \<or> n = 160)"

definition py_strip :: "string \<Rightarrow> string" where
  "py_strip s = rev (dropWhile py_isspace (rev (dropWhile py_isspace s)))"

definition lower_char :: "char \<Rightarrow> char" where
  "lower_char c =
     (let n = (of_char c :: nat)
      in if (65 \<le> n \<and> n \<le> 90) \<or> (192 \<le> n \<and> n \<le> 222 \<and> n \<noteq> 215)
         then char_of (n + 32) else c)"

definition py_lower :: "string \<Rightarrow> string" where
  "py_lower s = map lower_char s"

text \<open>\<^verbatim>\<open>v.lower()\<close>: only a string has the method.\<close>

fun lower_of :: "json \<Rightarrow> string result" where
  "lower_of (JStr s) = Inr (py_lower s)"
| "lower_of v = Inl AttributeError"

text \<open>The decimal text of an integer, as an f-string prints it.\<close>

fun str_nat :: "nat \<Rightarrow> string" where
  "str_nat n =
     (if n < 10 then [''0123456789'' ! n]
      else str_nat (n div 10) @ [''0123456789'' ! (n mod 10)])"

declare str_nat.simps [simp del]

definition str_int :: "int \<Rightarrow> string" where
  "str_int i = (if i < 0 then CHR ''-'' # str_nat (nat (- i)) else str_nat (nat i))"

subsection \<open>The regular expressions of \<^verbatim>\<open>chat\<close>\<close>

text \<open>
  \<^verbatim>\<open>re.sub(r'<think>.*?</think>', '', s, flags=re.DOTALL | re.IGNORECASE)\<close>: the pattern is
  a literal opening tag, a lazy \<^verbatim>\<open>.*?\<close> that also crosses newlines, and a literal closing
  tag, compared without regard to letter case. \<open>match_ci\<close> tests a literal at the start of
  the text; \<open>find_ci\<close> returns the text after the leftmost occurrence of a literal;
  \<open>re_sub\<close> scans left to right, deletes a match (opening tag up to the first closing tag
  after it) where one starts, and keeps the character otherwise.
\<close>

fun match_ci :: "string \<Rightarrow> string \<Rightarrow> bool" where
  "match_ci [] s = True"
| "match_ci (p # ps) [] = False"
| "match_ci (p # ps) (c # cs) = (lower_char p = lower_char c \<and> match_ci ps cs)"

fun find_ci :: "string \<Rightarrow> string \<Rightarrow> string option" where
  "find_ci pat [] = (if pat = [] then Some [] else None)"
| "find_ci pat (c # cs) =
     (if match_ci pat (c # cs) then Some (drop (length pat) (c # cs)) else find_ci pat cs)"

lemma find_ci_length: "find_ci pat s = Some r \<Longrightarrow> length r \<le> length s"
  by (induction s) (auto split: if_splits)

function re_sub :: "string \<Rightarrow> string \<Rightarrow> string \<Rightarrow> string" where
  "re_sub [] cl s = s"
| "re_sub (p # ps) cl [] = []"
| "re_sub (p # ps) cl (c # cs) =
     (if match_ci (p # ps) (c # cs)
      then (case find_ci cl (drop (length ps) cs) of
              Some rest \<Rightarrow> re_sub (p # ps) cl rest
            | None \<Rightarrow> c # re_sub (p # ps) cl cs)
      else c # re_sub (p # ps) cl cs)"
  by pat_completeness auto
termination
proof (relation "measure (\<lambda>(opn, cl, s). length s)")
  fix p :: char and ps cl :: string and c :: char and cs rest :: string
  assume "find_ci cl (drop (length ps) cs) = Some rest"
  then have "length rest \<le> length (drop (length ps) cs)"
    by (rule find_ci_length)
  then show "((p # ps, cl, rest), (p # ps, cl, c # cs)) \<in> measure (\<lambda>(opn, cl, s). length s)"
    by simp
qed simp_all

subsection \<open>Base64\<close>

text \<open>\<^verbatim>\<open>base64.b64encode(data).decode('utf-8')\<close>: three bytes give four characters of the
  standard alphabet, a shorter last group is padded with \<^verbatim>\<open>=\<close>.\<close>

definition b64_char :: "nat \<Rightarrow> char" where
  "b64_char n =
     ''ABCDEFGHIJKLMNOPQRSTUVWXYZabcdefghijklmnopqrstuvwxyz0123456789+/'' ! (n mod 64)"

fun b64encode :: "string \<Rightarrow> string" where
  "b64encode [] = []"
| "b64encode [a] =
     (let x = (of_char a :: nat)
      in [b64_char (x div 4), b64_char ((x mod 4) * 16), CHR ''='', CHR ''=''])"
| "b64encode [a, b] =
     (let x = (of_char a :: nat); y = (of_char b :: nat)
      in [b64_char (x div 4), b64_char ((x mod 4) * 16 + y div 16),
          b64_char ((y mod 16) * 4), CHR ''=''])"
| "b64encode (a # b # c # rest) =
     (let x = (of_char a :: nat); y = (of_char b :: nat); z = (of_char c :: nat)
      in [b64_char (x div 4), b64_char ((x mod 4) * 16 + y div 16),
          b64_char ((y mod 16) * 4 + z div 64), b64_char (z mod 64)] @ b64encode rest)"

section \<open>Requests and responses\<close>

datatype http_method = GET | POST

text \<open>The arguments of \<^verbatim>\<open>requests.get\<close> / \<^verbatim>\<open>requests.post\<close>. \<open>timeout = None\<close> is the
  library's default when the keyword is not passed: the call waits without limit.\<close>

record request =
  verb :: http_method
  url :: string
  req_headers :: "(string \<times> string) list"
  req_json :: "json option"
  req_stream :: bool
  timeout :: "nat option"

text \<open>
  What the client reads of a response: \<open>status_code\<close>; \<open>resp_text\<close> (\<^verbatim>\<open>response.text\<close>);
  \<open>resp_json\<close>, the outcome of \<^verbatim>\<open>response.json()\<close> (\<open>Inl msg\<close> when the body is not JSON:
  the library, from version 2.27 on, raises \<^verbatim>\<open>requests.exceptions.JSONDecodeError\<close>, a
  \<open>RequestException\<close>);
  \<open>status_msg\<close>, the message of the \<^verbatim>\<open>HTTPError\<close> that \<^verbatim>\<open>raise_for_status()\<close> raises for an
  error status; \<open>resp_lines\<close>, the byte lines \<^verbatim>\<open>iter_lines()\<close> delivers; and \<open>resp_broken\<close>,
  the message of the \<open>RequestException\<close> with which \<^verbatim>\<open>iter_lines()\<close> fails once these lines
  are delivered, if the connection breaks.
\<close>

record response =
  status_code :: int
  resp_text :: string
  resp_json :: "string + json"
  status_msg :: string
  resp_lines :: "string list"
  resp_broken :: "string option"

type_synonym network = "request \<Rightarrow> string + response"

definition send :: "network \<Rightarrow> request \<Rightarrow> response result" where
  "send net req = (case net req of Inl msg \<Rightarrow> Inl (RequestException msg) | Inr r \<Rightarrow> Inr r)"

definition json_of :: "response \<Rightarrow> json result" where
  "json_of r = (case resp_json r of Inl msg \<Rightarrow> Inl (RequestException msg) | Inr v \<Rightarrow> Inr v)"

definition raise_for_status :: "response \<Rightarrow> unit result" where
  "raise_for_status r =
     (if 400 \<le> status_code r \<and> status_code r < 600
      then Inl (RequestException (status_msg r)) else Inr ())"

text \<open>The client object: \<^verbatim>\<open>self.base_url\<close> (\<^verbatim>\<open>self.host\<close> in the second module) and
  \<^verbatim>\<open>self.headers\<close>.\<close>

record client =
  base_url :: string
  headers :: "(string \<times> string) list"

section \<open>\<^verbatim>\<open>backend/ollama_client.py\<close>\<close>

text \<open>\<^verbatim>\<open>requests.get(f"{self.base_url}/v1/models", headers=self.headers[, timeout=...])\<close>.\<close>

definition models_request :: "client \<Rightarrow> nat option \<Rightarrow> request" where
  "models_request c tmo =
     \<lparr>verb = GET, url = base_url c @ ''/v1/models'', req_headers = headers c,
      req_json = None, req_stream = False, timeout = tmo\<rparr>"

definition is_server_running :: "network \<Rightarrow> client \<Rightarrow> request list \<times> bool result" where
  "is_server_running net c =
     (let req = models_request c (Some 5)
      in ([req],
          except_request
            (and_then (send net req) (\<lambda>response. Inr (status_code response = 200)))
            (\<lambda>e. False)))"

definition list_models :: "network \<Rightarrow> client \<Rightarrow> request list \<times> json list result" where
  "list_models net c =
     (let req = models_request c None
      in ([req],
          except_request
            (and_then (send net req) (\<lambda>response.
               if status_code response = 200
               then and_then (json_of response) (\<lambda>body.
                    and_then (py_get body ''data'' (JArr [])) (\<lambda>models_data.
                    and_then (py_iter models_data) (\<lambda>models.
                      map_result (\<lambda>model. getitem model ''id'') models)))
               else Inr []))
            (\<lambda>e. [])))"

text \<open>Lines 47--87. \<open>conversation_history = None\<close> is the default argument.\<close>

definition user_message :: "string \<Rightarrow> json" where
  "user_message message = JObj [(''role'', JStr ''user''), (''content'', JStr message)]"

definition chat_request :: "client \<Rightarrow> string \<Rightarrow> json list \<Rightarrow> bool \<Rightarrow> request" where
  "chat_request c model messages streaming =
     \<lparr>verb = POST, url = base_url c @ ''/v1/chat/completions'', req_headers = headers c,
      req_json = Some (JObj [(''model'', JStr model), (''messages'', JArr messages),
                             (''stream'', JBool streaming), (''temperature'', JFloat 0.7),
                             (''top_p'', JFloat 0.9)]),
      req_stream = streaming, timeout = Some 180\<rparr>"

text \<open>\<^verbatim>\<open>result["choices"][0]["message"]["content"]\<close>.\<close>

definition message_content :: "json \<Rightarrow> json result" where
  "message_content result =
     and_then (getitem result ''choices'') (\<lambda>choices.
     and_then (getitem0 choices) (\<lambda>choice.
     and_then (getitem choice ''message'') (\<lambda>msg.
       getitem msg ''content'')))"

text \<open>The \<^verbatim>\<open>try\<close> block of \<^verbatim>\<open>chat\<close> (lines 55--87), for the message list built before it.
  \<^verbatim>\<open>re.sub\<close> on a value that is not a string raises a TypeError.\<close>

definition chat_send ::
  "network \<Rightarrow> client \<Rightarrow> string \<Rightarrow> json list \<Rightarrow> bool \<Rightarrow> request list \<times> json result" where
  "chat_send net c model messages enable_thinking =
     (let req = chat_request c model messages False
      in ([req],
          except_request
            (and_then (send net req) (\<lambda>response.
               if status_code response = 200
               then and_then (json_of response) (\<lambda>result.
                    and_then (message_content result) (\<lambda>response_text.
                      if \<not> enable_thinking
                      then (case response_text of
                              JStr s \<Rightarrow>
                                Inr (JStr (py_strip
                                  (re_sub ''<thinking>'' ''</thinking>''
                                    (re_sub ''<think>'' ''</think>'' s))))
                            | _ \<Rightarrow> Inl TypeError)
                      else Inr response_text))
               else Inr (JStr (''Error: '' @ str_int (status_code response) @ '' - '' @
                               resp_text response))))
            (\<lambda>e. JStr (''Connection error: '' @ e))))"

definition chat ::
  "network \<Rightarrow> client \<Rightarrow> string \<Rightarrow> string \<Rightarrow> json list option \<Rightarrow> bool
     \<Rightarrow> request list \<times> json result" where
  "chat net c message model conversation_history enable_thinking =
     (let history = (case conversation_history of None \<Rightarrow> [] | Some h \<Rightarrow> h);
          messages = history @ [user_message message]
      in chat_send net c model messages enable_thinking)"

subsection \<open>Streaming\<close>

text \<open>
  \<^verbatim>\<open>bytes.decode('utf-8')\<close> and \<^verbatim>\<open>json.loads\<close> are library functions; the streaming
  operations take them as a \<open>codec\<close>. For \<open>utf8_decode\<close>, \<open>None\<close> is a UnicodeDecodeError.
  \<open>json_loads\<close> returns the decoded value or the exception raised: a
  \<^verbatim>\<open>json.JSONDecodeError\<close> for a text that is not JSON, and for some texts another one
  (a RecursionError for very deep nesting, a plain ValueError for an integer with too many
  digits), which \<^verbatim>\<open>except json.JSONDecodeError\<close> does not catch.

  A generator is modelled by what it does when it is consumed to its end, for a response
  that delivers finitely many lines: the values it yields, in order, and the exception
  that leaves it after them, if any.
\<close>

record codec =
  utf8_decode :: "string \<Rightarrow> string option"
  json_loads :: "string \<Rightarrow> py_exc + json"

type_synonym generated = "json list \<times> py_exc option"

text \<open>\<^verbatim>\<open>if line_text.startswith('data: '): line_text = line_text[6:]\<close>.\<close>

definition data_payload :: "string \<Rightarrow> string" where
  "data_payload line_text = (if take 6 line_text = ''data: '' then drop 6 line_text else line_text)"

definition yield :: "json \<Rightarrow> generated \<Rightarrow> generated" where
  "yield v g = (v # fst g, snd g)"

text \<open>
  The loop over \<^verbatim>\<open>response.iter_lines()\<close>, which the three streaming paths share line
  for line up to the body of the inner \<^verbatim>\<open>try\<close>: \<open>chunk\<close> is that body, returning the value
  to yield, if any. Once the lines are exhausted, a broken connection makes
  \<^verbatim>\<open>iter_lines()\<close> raise a \<open>RequestException\<close>.
\<close>

fun stream_lines ::
  "codec \<Rightarrow> (json \<Rightarrow> json option result) \<Rightarrow> string option \<Rightarrow> string list \<Rightarrow> generated" where
  "stream_lines cd chunk broken [] =
     (case broken of None \<Rightarrow> ([], None) | Some msg \<Rightarrow> ([], Some (RequestException msg)))"
| "stream_lines cd chunk broken (line # rest) =
     (if line = [] then stream_lines cd chunk broken rest
      else case utf8_decode cd line of
        None \<Rightarrow> ([], Some UnicodeDecodeError)
      | Some decoded \<Rightarrow>
          (if py_strip (data_payload decoded) = ''[DONE]''
           then ([], None)
           else case json_loads cd (data_payload decoded) of
             Inl e \<Rightarrow>
               (if e = JSONDecodeError then stream_lines cd chunk broken rest
                else ([], Some e))
           | Inr data \<Rightarrow>
               (case chunk data of
                  Inl e \<Rightarrow> ([], Some e)
                | Inr None \<Rightarrow> stream_lines cd chunk broken rest
                | Inr (Some content) \<Rightarrow> yield content (stream_lines cd chunk broken rest))))"

text \<open>\<^verbatim>\<open>except requests.exceptions.RequestException as e: yield f"Connection error: {e}"\<close>
  around the body of a generator.\<close>

fun except_request_yield :: "generated \<Rightarrow> generated" where
  "except_request_yield (ys, Some (RequestException msg)) =
     (ys @ [JStr (''Connection error: '' @ msg)], None)"
| "except_request_yield (ys, e) = (ys, e)"

text \<open>The body of the inner \<^verbatim>\<open>try\<close> of \<^verbatim>\<open>chat_stream\<close> (lines 124--135).\<close>

definition chat_chunk :: "bool \<Rightarrow> json \<Rightarrow> json option result" where
  "chat_chunk enable_thinking data =
     and_then (py_in ''choices'' data) (\<lambda>present.
       if \<not> present then Inr None
       else and_then (getitem data ''choices'') (\<lambda>choices.
            and_then (py_len choices) (\<lambda>n.
              if \<not> n > 0 then Inr None
              else and_then (getitem0 choices) (\<lambda>choice.
                   and_then (py_get choice ''delta'' (JObj [])) (\<lambda>delta.
                   and_then (py_get delta ''content'' (JStr [])) (\<lambda>content.
                     if truthy content
                     then (if \<not> enable_thinking
                           then and_then (lower_of content) (\<lambda>low.
                                  if contains_str ''<think>'' low
                                  then Inr None
                                  else and_then (lower_of content) (\<lambda>low'.
                                         if contains_str ''<thinking>'' low' then Inr None
                                         else Inr (Some content)))
                           else Inr (Some content))
                     else Inr None))))))"

definition chat_stream_send ::
  "network \<Rightarrow> codec \<Rightarrow> client \<Rightarrow> string \<Rightarrow> json list \<Rightarrow> bool \<Rightarrow> request list \<times> generated" where
  "chat_stream_send net cd c model messages enable_thinking =
     (let req = chat_request c model messages True
      in ([req],
          except_request_yield
            (case send net req of
               Inl e \<Rightarrow> ([], Some e)
             | Inr response \<Rightarrow>
                 if status_code response = 200
                 then stream_lines cd (chat_chunk enable_thinking) (resp_broken response)
                        (resp_lines response)
                 else ([JStr (''Error: '' @ str_int (status_code response) @ '' - '' @
                              resp_text response)], None))))"

definition chat_stream ::
  "network \<Rightarrow> codec \<Rightarrow> client \<Rightarrow> string \<Rightarrow> string \<Rightarrow> json list option \<Rightarrow> bool
     \<Rightarrow> request list \<times> generated" where
  "chat_stream net cd c message model conversation_history enable_thinking =
     (let history = (case conversation_history of None \<Rightarrow> [] | Some h \<Rightarrow> h);
          messages = history @ [user_message message]
      in chat_stream_send net cd c model messages enable_thinking)"

section \<open>\<^verbatim>\<open>rag_system/utils/ollama_client.py\<close>\<close>

text \<open>A Pillow image is a value of a type \<open>'img\<close>; \<open>png\<close> gives the bytes that
  \<^verbatim>\<open>image.save(buffered, format="PNG")\<close> writes.\<close>

definition image_to_base64 :: "('img \<Rightarrow> string) \<Rightarrow> 'img \<Rightarrow> string" where
  "image_to_base64 png img = b64encode (png img)"

definition embeddings_request :: "client \<Rightarrow> string \<Rightarrow> string \<Rightarrow> request" where
  "embeddings_request c model input_text =
     \<lparr>verb = POST, url = base_url c @ ''/v1/embeddings'', req_headers = headers c,
      req_json = Some (JObj [(''model'', JStr model), (''input'', JStr input_text)]),
      req_stream = False, timeout = None\<rparr>"

definition generate_embedding ::
  "network \<Rightarrow> client \<Rightarrow> string \<Rightarrow> string \<Rightarrow> request list \<times> json result" where
  "generate_embedding net c model input_text =
     (let req = embeddings_request c model input_text
      in ([req],
          except_request
            (and_then (send net req) (\<lambda>response.
             and_then (raise_for_status response) (\<lambda>_.
             and_then (json_of response) (\<lambda>result.
             and_then (py_in ''data'' result) (\<lambda>present.
               if \<not> present then Inr (JArr [])
               else and_then (getitem result ''data'') (\<lambda>items.
                    and_then (py_len items) (\<lambda>n.
                      if n > 0
                      then and_then (getitem result ''data'') (\<lambda>items'.
                           and_then (getitem0 items') (\<lambda>item.
                             getitem item ''embedding''))
                      else Inr (JArr []))))))))
            (\<lambda>e. JArr [])))"

text \<open>The user message of the image branch: the prompt as a text part, then one
  \<^verbatim>\<open>image_url\<close> part appended per image, in order.\<close>

definition image_part :: "('img \<Rightarrow> string) \<Rightarrow> 'img \<Rightarrow> json" where
  "image_part png img =
     JObj [(''type'', JStr ''image_url''),
           (''image_url'',
            JObj [(''url'', JStr (''data:image/png;base64,'' @ image_to_base64 png img))])]"

definition vision_messages :: "('img \<Rightarrow> string) \<Rightarrow> string \<Rightarrow> 'img list \<Rightarrow> json list" where
  "vision_messages png prompt images =
     [JObj [(''role'', JStr ''user''),
            (''content'',
             JArr (foldl (\<lambda>content img. content @ [image_part png img])
                     [JObj [(''type'', JStr ''text''), (''text'', JStr prompt)]] images))]]"

definition completion_request :: "client \<Rightarrow> string \<Rightarrow> json \<Rightarrow> bool \<Rightarrow> request" where
  "completion_request c path payload streaming =
     \<lparr>verb = POST, url = base_url c @ path, req_headers = headers c,
      req_json = Some payload, req_stream = streaming, timeout = None\<rparr>"

text \<open>\<^verbatim>\<open>if images:\<close> is false for \<^verbatim>\<open>None\<close> and for the empty list.\<close>

definition generate_completion ::
  "network \<Rightarrow> ('img \<Rightarrow> string) \<Rightarrow> client \<Rightarrow> string \<Rightarrow> string \<Rightarrow> 'img list option
     \<Rightarrow> request list \<times> json result" where
  "generate_completion net png c model prompt images =
     (let payload = JObj [(''model'', JStr model), (''prompt'', JStr prompt),
                          (''stream'', JBool False), (''max_tokens'', JInt 1024),
                          (''temperature'', JFloat 0.7)]
      in if images \<noteq> None \<and> images \<noteq> Some []
         then
           (let messages = vision_messages png prompt (the images);
                chat_payload = JObj [(''model'', JStr model), (''messages'', JArr messages),
                                     (''stream'', JBool False), (''max_tokens'', JInt 1024),
                                     (''temperature'', JFloat 0.7)];
                req = completion_request c ''/v1/chat/completions'' chat_payload False
            in ([req],
                except_request
                  (and_then (send net req) (\<lambda>response.
                   and_then (raise_for_status response) (\<lambda>_.
                   and_then (json_of response) (\<lambda>result.
                   and_then (message_content result) (\<lambda>content.
                     Inr (JObj [(''response'', content), (''done'', JBool True)]))))))
                  (\<lambda>e. JObj [])))
         else
           (let req = completion_request c ''/v1/completions'' payload False
            in ([req],
                except_request
                  (and_then (send net req) (\<lambda>response.
                   and_then (raise_for_status response) (\<lambda>_.
                   and_then (json_of response) (\<lambda>result.
                   and_then (getitem result ''choices'') (\<lambda>choices.
                   and_then (getitem0 choices) (\<lambda>choice.
                   and_then (getitem choice ''text'') (\<lambda>content.
                     Inr (JObj [(''response'', content), (''done'', JBool True)]))))))))
                  (\<lambda>e. JObj []))))"

text \<open>The bodies of the inner \<^verbatim>\<open>try\<close> of \<^verbatim>\<open>stream_completion\<close>: lines 267--272 for the
  image branch, lines 287--291 for the text branch.\<close>

definition delta_chunk :: "json \<Rightarrow> json option result" where
  "delta_chunk data =
     and_then (py_in ''choices'' data) (\<lambda>present.
       if \<not> present then Inr None
       else and_then (getitem data ''choices'') (\<lambda>choices.
            and_then (py_len choices) (\<lambda>n.
              if \<not> n > 0 then Inr None
              else and_then (getitem0 choices) (\<lambda>choice.
                   and_then (py_get choice ''delta'' (JObj [])) (\<lambda>delta.
                   and_then (py_get delta ''content'' (JStr [])) (\<lambda>chunk.
                     if truthy chunk then Inr (Some chunk) else Inr None))))))"

definition text_chunk :: "json \<Rightarrow> json option result" where
  "text_chunk data =
     and_then (py_in ''choices'' data) (\<lambda>present.
       if \<not> present then Inr None
       else and_then (getitem data ''choices'') (\<lambda>choices.
            and_then (py_len choices) (\<lambda>n.
              if \<not> n > 0 then Inr None
              else and_then (getitem0 choices) (\<lambda>choice.
                   and_then (py_get choice ''text'' (JStr [])) (\<lambda>chunk.
                     if truthy chunk then Inr (Some chunk) else Inr None)))))"

definition stream_completion ::
  "network \<Rightarrow> codec \<Rightarrow> ('img \<Rightarrow> string) \<Rightarrow> client \<Rightarrow> string \<Rightarrow> string \<Rightarrow> 'img list option
     \<Rightarrow> request list \<times> generated" where
  "stream_completion net cd png c model prompt images =
     (let payload = JObj [(''model'', JStr model), (''prompt'', JStr prompt),
                          (''stream'', JBool True), (''max_tokens'', JInt 1024),
                          (''temperature'', JFloat 0.7)]
      in if images \<noteq> None \<and> images \<noteq> Some []
         then
           (let messages = vision_messages png prompt (the images);
                chat_payload = JObj [(''model'', JStr model), (''messages'', JArr messages),
                                     (''stream'', JBool True), (''max_tokens'', JInt 1024),
                                     (''temperature'', JFloat 0.7)];
                req = completion_request c ''/v1/chat/completions'' chat_payload True
            in ([req],
                except_request_yield
                  (case send net req of
                     Inl e \<Rightarrow> ([], Some e)
                   | Inr resp \<Rightarrow>
                       (case raise_for_status resp of
                          Inl e \<Rightarrow> ([], Some e)
                        | Inr _ \<Rightarrow>
                            stream_lines cd delta_chunk (resp_broken resp) (resp_lines resp)))))
         else
           (let req = completion_request c ''/v1/completions'' payload True
            in ([req],
                except_request_yield
                  (case send net req of
                     Inl e \<Rightarrow> ([], Some e)
                   | Inr resp \<Rightarrow>
                       (case raise_for_status resp of
                          Inl e \<Rightarrow> ([], Some e)
                        | Inr _ \<Rightarrow>
                            stream_lines cd text_chunk (resp_broken resp) (resp_lines resp))))))"

section \<open>The caller's history list as a shared object\<close>

text \<open>
  \<^verbatim>\<open>conversation_history\<close> is a reference to a list object that the caller keeps. To see
  what \<^verbatim>\<open>chat\<close> and \<^verbatim>\<open>chat_stream\<close> do to it, the list objects live in a store,
  addressed by position: \<^verbatim>\<open>[]\<close> and \<^verbatim>\<open>a + b\<close> allocate a new list at the next free
  address, \<^verbatim>\<open>a.append(x)\<close> would overwrite the list at the address of \<open>a\<close>. Lines 49--53 and
  91--94 run on the store; the \<^verbatim>\<open>try\<close> block then reads the list \<open>messages\<close> refers to.
\<close>

type_synonym store = "json list list"

definition new_list :: "store \<Rightarrow> json list \<Rightarrow> store \<times> nat" where
  "new_list st xs = (st @ [xs], length st)"

definition list_concat :: "store \<Rightarrow> nat \<Rightarrow> json list \<Rightarrow> store \<times> nat" where
  "list_concat st a xs = new_list st (st ! a @ xs)"

definition build_messages :: "store \<Rightarrow> nat option \<Rightarrow> string \<Rightarrow> store \<times> nat" where
  "build_messages st conversation_history message =
     (let (st1, history) =
            (case conversation_history of None \<Rightarrow> new_list st [] | Some a \<Rightarrow> (st, a))
      in list_concat st1 history [user_message message])"

definition chat_on_store ::
  "network \<Rightarrow> client \<Rightarrow> store \<Rightarrow> string \<Rightarrow> string \<Rightarrow> nat option \<Rightarrow> bool
     \<Rightarrow> store \<times> request list \<times> json result" where
  "chat_on_store net c st message model conversation_history enable_thinking =
     (let (st', messages) = build_messages st conversation_history message
      in (st', chat_send net c model (st' ! messages) enable_thinking))"

definition chat_stream_on_store ::
  "network \<Rightarrow> codec \<Rightarrow> client \<Rightarrow> store \<Rightarrow> string \<Rightarrow> string \<Rightarrow> nat option \<Rightarrow> bool
     \<Rightarrow> store \<times> request list \<times> generated" where
  "chat_stream_on_store net cd c st message model conversation_history enable_thinking =
     (let (st', messages) = build_messages st conversation_history message
      in (st', chat_stream_send net cd c model (st' ! messages) enable_thinking))"

section \<open>Texts cut at thinking spans\<close>

text \<open>
  \<open>has_span opn cl s\<close>: somewhere in \<open>s\<close> an opening tag is followed, later, by a closing
  tag (letter case ignored), that is, \<open>s\<close> has a substring delimited by the two tags.

  \<open>span_starts opn cl s\<close>: \<open>s\<close> begins with an opening tag and a closing tag follows it.

  A text can be cut into pieces: kept text, and spans given by their opening tag, body
  and closing tag as they are written. \<open>render\<close> is the text of a piece, \<open>visible\<close> what is
  left of it when spans are deleted. A cut is right for a pair of tags (\<open>cut_ok\<close>) when
  \<^item> every span consists of an opening tag, a body and a closing tag (up to letter case),
    and the first closing tag in body and closing tag together is the one at their end;
  \<^item> at no position inside kept text does the text from there on begin with an opening
    tag that has a closing tag after it (\<open>kept_ok\<close>).
\<close>

fun has_span :: "string \<Rightarrow> string \<Rightarrow> string \<Rightarrow> bool" where
  "has_span opn cl [] = False"
| "has_span opn cl (c # cs) =
     (if match_ci opn (c # cs) \<and> find_ci cl (drop (length opn) (c # cs)) \<noteq> None then True
      else has_span opn cl cs)"

definition span_starts :: "string \<Rightarrow> string \<Rightarrow> string \<Rightarrow> bool" where
  "span_starts opn cl s = (match_ci opn s \<and> find_ci cl (drop (length opn) s) \<noteq> None)"

fun kept_ok :: "string \<Rightarrow> string \<Rightarrow> string \<Rightarrow> string \<Rightarrow> bool" where
  "kept_ok opn cl [] rest = True"
| "kept_ok opn cl (c # t) rest = (\<not> span_starts opn cl (c # t @ rest) \<and> kept_ok opn cl t rest)"

datatype piece = Kept string | Span string string string

fun render :: "piece \<Rightarrow> string" where
  "render (Kept t) = t"
| "render (Span opn body cl) = opn @ body @ cl"

fun visible :: "piece \<Rightarrow> string" where
  "visible (Kept t) = t"
| "visible (Span opn body cl) = []"

fun cut_ok :: "string \<Rightarrow> string \<Rightarrow> piece list \<Rightarrow> bool" where
  "cut_ok opn cl [] = True"
| "cut_ok opn cl (Kept t # ps) =
     (kept_ok opn cl t (concat (map render ps)) \<and> cut_ok opn cl ps)"
| "cut_ok opn cl (Span tag body closing # ps) =
     (py_lower tag = py_lower opn \<and> py_lower closing = py_lower cl \<and>
      find_ci cl (body @ closing) = Some [] \<and> cut_ok opn cl ps)"

section \<open>Concrete clients and responses\<close>

text \<open>Values on which the properties below are run.\<close>

definition local_client :: client where
  "local_client =
     \<lparr>base_url = ''http://localhost:8000'', headers = [(''Content-Type'', ''application/json'')]\<rparr>"

definition reply :: "int \<Rightarrow> string \<Rightarrow> string + json \<Rightarrow> response" where
  "reply code body parsed =
     \<lparr>status_code = code, resp_text = body, resp_json = parsed,
      status_msg = str_int code @ '' Error'', resp_lines = [], resp_broken = None\<rparr>"

text \<open>A chat completion with status 200 whose first choice has the given content.\<close>

definition chat_reply :: "string \<Rightarrow> response" where
  "chat_reply s =
     reply 200 []
       (Inr (JObj [(''choices'',
                    JArr [JObj [(''index'', JInt 0),
                                (''message'', JObj [(''role'', JStr ''assistant''),
                                                    (''content'', JStr s)])]])]))"

text \<open>A streamed answer with status 200 that delivers the given lines.\<close>

definition sse_reply :: "string list \<Rightarrow> response" where
  "sse_reply ls =
     \<lparr>status_code = 200, resp_text = [], resp_json = Inl ''not a JSON document'',
      status_msg = [], resp_lines = ls, resp_broken = None\<rparr>"

text \<open>A codec for the examples: it decodes lines of ASCII bytes, on which UTF-8 decoding
  is the identity, and rejects lines with other bytes (the bytes \<^verbatim>\<open>0xFF\<close> and \<^verbatim>\<open>0xFE\<close> used
  below occur in no UTF-8 text). It parses the two event texts used below as \<^verbatim>\<open>json.loads\<close>
  does and rejects every other input with a \<^verbatim>\<open>JSONDecodeError\<close>.\<close>

definition sample_codec :: codec where
  \<open>sample_codec =
     \<lparr>utf8_decode = (\<lambda>bs. if list_all (\<lambda>b. (of_char b :: nat) < 128) bs then Some bs else None),
      json_loads = (\<lambda>s.
        if s = ''{"choices":[{"delta":{"content":"Hi"}}]}''
        then Inr (JObj [(''choices'', JArr [JObj [(''delta'', JObj [(''content'', JStr ''Hi'')])]])])
        else if s = ''{"choices":[{"text":"Hi"}]}''
        then Inr (JObj [(''choices'', JArr [JObj [(''text'', JStr ''Hi'')]])])
        else Inl JSONDecodeError)\<rparr>\<close>


section \<open>Properties\<close>

subsection \<open>Liveness probe and model listing\<close>

text \<open>
  Claim C7. \<^verbatim>\<open>is_server_running\<close> issues one GET of \<^verbatim>\<open>/v1/models\<close> with a timeout of five
  seconds and never raises: it returns \<open>True\<close> exactly when the probe is answered with
  status 200, and \<open>False\<close> for every failure of the network (connection refused, DNS
  failure, timeout) and for every other status.
\<close>

theorem is_server_running_iff_status_200:
  "fst (is_server_running net c) = [models_request c (Some 5)] \<and>
   snd (is_server_running net c) =
     Inr (case net (models_request c (Some 5)) of
            Inl failure \<Rightarrow> False
          | Inr response \<Rightarrow> status_code response = 200)"
  by (simp add: is_server_running_def Let_def send_def and_then_def except_request_def
      split: sum.split)

lemma map_result_getitem_id:
  "list_all2 (\<lambda>d i. map_of d ''id'' = Some i) descs ids \<Longrightarrow>
   map_result (\<lambda>model. getitem model ''id'') (map JObj descs) = Inr ids"
  by (induction descs ids rule: list_all2_induct) simp_all

text \<open>
  Claim C8. A valid listing is a response with status 200 whose body is an object with a
  \<^verbatim>\<open>data\<close> array of model descriptors, each an object with an \<^verbatim>\<open>id\<close> field. For it
  \<^verbatim>\<open>list_models\<close> returns the list of these identifiers, one per descriptor and in the
  order of the array. For any other status and for a failure of the network it returns
  the empty list; in none of these cases does it raise.
\<close>

theorem list_models_ids_in_order:
  "(net (models_request c None) = Inr r \<and> status_code r = 200 \<and>
    resp_json r = Inr (JObj body) \<and> map_of body ''data'' = Some (JArr (map JObj descs)) \<and>
    list_all2 (\<lambda>d i. map_of d ''id'' = Some i) descs ids
      \<longrightarrow> snd (list_models net c) = Inr ids) \<and>
   (net (models_request c None) = Inr r \<and> status_code r \<noteq> 200
      \<longrightarrow> snd (list_models net c) = Inr []) \<and>
   (net (models_request c None) = Inl failure \<longrightarrow> snd (list_models net c) = Inr [])"
proof (intro conjI impI)
  assume valid: "net (models_request c None) = Inr r \<and> status_code r = 200 \<and>
    resp_json r = Inr (JObj body) \<and> map_of body ''data'' = Some (JArr (map JObj descs)) \<and>
    list_all2 (\<lambda>d i. map_of d ''id'' = Some i) descs ids"
  then have "map_result (\<lambda>model. getitem model ''id'') (map JObj descs) = Inr ids"
    by (simp add: map_result_getitem_id)
  with valid show "snd (list_models net c) = Inr ids"
    by (simp add: list_models_def Let_def send_def and_then_def except_request_def json_of_def)
next
  assume "net (models_request c None) = Inr r \<and> status_code r \<noteq> 200"
  then show "snd (list_models net c) = Inr []"
    by (simp add: list_models_def Let_def send_def and_then_def except_request_def)
next
  assume "net (models_request c None) = Inl failure"
  then show "snd (list_models net c) = Inr []"
    by (simp add: list_models_def Let_def send_def and_then_def except_request_def)
qed

theorem list_models_ids_in_order_witness:
  "snd (list_models
          (\<lambda>req. Inr (reply 200 []
             (Inr (JObj [(''object'', JStr ''list''),
                         (''data'', JArr [JObj [(''id'', JStr ''llama3.2''), (''object'', JStr ''model'')],
                                          JObj [(''id'', JStr ''qwen3'')]])]))))
          local_client)
     = Inr [JStr ''llama3.2'', JStr ''qwen3''] \<and>
   snd (list_models (\<lambda>req. Inr (reply 500 ''Internal Server Error'' (Inl ''no JSON''))) local_client)
     = Inr [] \<and>
   snd (list_models (\<lambda>req. Inl ''Connection refused'') local_client) = Inr []"
  using
    list_models_ids_in_order [of
      "\<lambda>req. Inr (reply 200 []
             (Inr (JObj [(''object'', JStr ''list''),
                         (''data'', JArr [JObj [(''id'', JStr ''llama3.2''), (''object'', JStr ''model'')],
                                          JObj [(''id'', JStr ''qwen3'')]])])))"
      local_client
      "reply 200 []
             (Inr (JObj [(''object'', JStr ''list''),
                         (''data'', JArr [JObj [(''id'', JStr ''llama3.2''), (''object'', JStr ''model'')],
                                          JObj [(''id'', JStr ''qwen3'')]])]))"
      "[(''object'', JStr ''list''),
                         (''data'', JArr [JObj [(''id'', JStr ''llama3.2''), (''object'', JStr ''model'')],
                                          JObj [(''id'', JStr ''qwen3'')]])]"
      "[[(''id'', JStr ''llama3.2''), (''object'', JStr ''model'')], [(''id'', JStr ''qwen3'')]]"
      "[JStr ''llama3.2'', JStr ''qwen3'']"]
    list_models_ids_in_order [of
      "\<lambda>req. Inr (reply 500 ''Internal Server Error'' (Inl ''no JSON''))" local_client
      "reply 500 ''Internal Server Error'' (Inl ''no JSON'')"]
    list_models_ids_in_order [of "\<lambda>req. Inl ''Connection refused''" local_client _ _ _ _
      "''Connection refused''"]
  by (simp add: reply_def)

subsection \<open>Embeddings\<close>



subsection \<open>Routing of completions\<close>

lemma foldl_append_parts: "foldl (\<lambda>content img. content @ [f img]) acc imgs = acc @ map f imgs"
  by (induction imgs arbitrary: acc) simp_all

text \<open>
  Claim C3. With at least one image, \<^verbatim>\<open>generate_completion\<close> issues exactly one request:
  a POST to \<^verbatim>\<open>/v1/chat/completions\<close> whose \<^verbatim>\<open>messages\<close> array holds a single user
  message; the content of that message is the text part with the prompt followed by one
  \<^verbatim>\<open>image_url\<close> part per image, in order, each with the URL
  \<^verbatim>\<open>data:image/png;base64,\<close> followed by the base64 text of the PNG bytes of the image.
  With no image (\<^verbatim>\<open>None\<close> or the empty list) the one request is a POST to
  \<^verbatim>\<open>/v1/completions\<close> carrying the prompt string.
\<close>

theorem generate_completion_routing:
  "(images = Some (img # imgs) \<longrightarrow>
      fst (generate_completion net png c model prompt images) =
        [\<lparr>verb = POST, url = base_url c @ ''/v1/chat/completions'', req_headers = headers c,
          req_json = Some (JObj
            [(''model'', JStr model),
             (''messages'', JArr
                [JObj [(''role'', JStr ''user''),
                       (''content'', JArr
                          (JObj [(''type'', JStr ''text''), (''text'', JStr prompt)] #
                           map (\<lambda>i. JObj [(''type'', JStr ''image_url''),
                                           (''image_url'', JObj [(''url'',
                                              JStr (''data:image/png;base64,'' @
                                                    b64encode (png i)))])])
                               (img # imgs)))]]),
             (''stream'', JBool False), (''max_tokens'', JInt 1024),
             (''temperature'', JFloat 0.7)]),
          req_stream = False, timeout = None\<rparr>]) \<and>
   (images = None \<or> images = Some [] \<longrightarrow>
      fst (generate_completion net png c model prompt images) =
        [\<lparr>verb = POST, url = base_url c @ ''/v1/completions'', req_headers = headers c,
          req_json = Some (JObj
            [(''model'', JStr model), (''prompt'', JStr prompt), (''stream'', JBool False),
             (''max_tokens'', JInt 1024), (''temperature'', JFloat 0.7)]),
          req_stream = False, timeout = None\<rparr>])"
proof (intro conjI impI)
  assume some: "images = Some (img # imgs)"
  have "vision_messages png prompt (img # imgs) =
          [JObj [(''role'', JStr ''user''),
                 (''content'', JArr
                    (JObj [(''type'', JStr ''text''), (''text'', JStr prompt)] #
                     map (image_part png) (img # imgs)))]]"
    by (simp add: vision_messages_def foldl_append_parts)
  with some show "fst (generate_completion net png c model prompt images) =
        [\<lparr>verb = POST, url = base_url c @ ''/v1/chat/completions'', req_headers = headers c,
          req_json = Some (JObj
            [(''model'', JStr model),
             (''messages'', JArr
                [JObj [(''role'', JStr ''user''),
                       (''content'', JArr
                          (JObj [(''type'', JStr ''text''), (''text'', JStr prompt)] #
                           map (\<lambda>i. JObj [(''type'', JStr ''image_url''),
                                           (''image_url'', JObj [(''url'',
                                              JStr (''data:image/png;base64,'' @
                                                    b64encode (png i)))])])
                               (img # imgs)))]]),
             (''stream'', JBool False), (''max_tokens'', JInt 1024),
             (''temperature'', JFloat 0.7)]),
          req_stream = False, timeout = None\<rparr>]"
    by (simp add: generate_completion_def Let_def completion_request_def image_part_def
        image_to_base64_def)
next
  assume "images = None \<or> images = Some []"
  then show "fst (generate_completion net png c model prompt images) =
        [\<lparr>verb = POST, url = base_url c @ ''/v1/completions'', req_headers = headers c,
          req_json = Some (JObj
            [(''model'', JStr model), (''prompt'', JStr prompt), (''stream'', JBool False),
             (''max_tokens'', JInt 1024), (''temperature'', JFloat 0.7)]),
          req_stream = False, timeout = None\<rparr>]"
    by (auto simp: generate_completion_def Let_def completion_request_def)
qed

theorem generate_completion_routing_witness:
  "map url (fst (generate_completion (\<lambda>req. Inl ''down'') (\<lambda>i. i) local_client ''llava''
                   ''What is this?'' (Some [''abc''])))
     = [''http://localhost:8000/v1/chat/completions''] \<and>
   map req_json (fst (generate_completion (\<lambda>req. Inl ''down'') (\<lambda>i. i) local_client ''llava''
                   ''What is this?'' (Some [''abc''])))
     = [Some (JObj
            [(''model'', JStr ''llava''),
             (''messages'', JArr
                [JObj [(''role'', JStr ''user''),
                       (''content'', JArr
                          [JObj [(''type'', JStr ''text''), (''text'', JStr ''What is this?'')],
                           JObj [(''type'', JStr ''image_url''),
                                 (''image_url'', JObj [(''url'',
                                    JStr ''data:image/png;base64,YWJj'')])]])]]),
             (''stream'', JBool False), (''max_tokens'', JInt 1024),
             (''temperature'', JFloat 0.7)])] \<and>
   map url (fst (generate_completion (\<lambda>req. Inl ''down'') (\<lambda>i. i) local_client ''llava''
                   ''What is this?'' (Some [])))
     = [''http://localhost:8000/v1/completions'']"
  using
    generate_completion_routing [of "Some [''abc'']" "''abc''" "[]" "\<lambda>req. Inl ''down''"
      "\<lambda>i. i" local_client "''llava''" "''What is this?''"]
    generate_completion_routing [of "Some []" _ _ "\<lambda>req. Inl ''down''"
      "\<lambda>i. i" local_client "''llava''" "''What is this?''"]
  by (simp add: local_client_def b64_char_def)

subsection \<open>The caller's history\<close>

lemma build_messages_Some:
  "build_messages st (Some a) message = (st @ [st ! a @ [user_message message]], length st)"
  by (simp add: build_messages_def new_list_def list_concat_def)

lemma build_messages_None:
  "build_messages st None message = (st @ [[], [user_message message]], Suc (length st))"
  by (simp add: build_messages_def new_list_def list_concat_def nth_append)

text \<open>
  Claim C10. \<^verbatim>\<open>chat\<close> and \<^verbatim>\<open>chat_stream\<close> leave every list that exists when they are
  called as it is, whatever is passed as \<^verbatim>\<open>conversation_history\<close>. For a history at address
  \<open>a\<close>: the list at \<open>a\<close> is unchanged; the messages sent are those of the history
  followed by the new user message, held in a list of their own, so that the call behaves
  as the function on list values does; and a second call with the same history object
  returns what it would have returned without the first.
\<close>

theorem history_list_unchanged:
  "take (length st) (fst (chat_on_store net c st message model h et)) = st \<and>
   take (length st) (fst (chat_stream_on_store net cd c st message model h et)) = st \<and>
   (a < length st \<longrightarrow>
      fst (chat_on_store net c st message model (Some a) et) ! a = st ! a \<and>
      fst (chat_stream_on_store net cd c st message model (Some a) et) ! a = st ! a \<and>
      snd (chat_on_store net c st message model (Some a) et)
        = chat net c message model (Some (st ! a)) et \<and>
      snd (chat_stream_on_store net cd c st message model (Some a) et)
        = chat_stream net cd c message model (Some (st ! a)) et \<and>
      snd (chat_on_store net c (fst (chat_on_store net c st message model (Some a) et))
             message' model' (Some a) et')
        = snd (chat_on_store net c st message' model' (Some a) et'))"
proof (intro conjI impI)
  show "take (length st) (fst (chat_on_store net c st message model h et)) = st"
    by (cases h) (simp_all add: chat_on_store_def build_messages_Some build_messages_None)
  show "take (length st) (fst (chat_stream_on_store net cd c st message model h et)) = st"
    by (cases h) (simp_all add: chat_stream_on_store_def build_messages_Some build_messages_None)
next
  assume a: "a < length st"
  then show "fst (chat_on_store net c st message model (Some a) et) ! a = st ! a"
    by (simp add: chat_on_store_def build_messages_Some nth_append)
  from a show "fst (chat_stream_on_store net cd c st message model (Some a) et) ! a = st ! a"
    by (simp add: chat_stream_on_store_def build_messages_Some nth_append)
  show "snd (chat_on_store net c st message model (Some a) et)
          = chat net c message model (Some (st ! a)) et"
    by (simp add: chat_on_store_def build_messages_Some chat_def)
  show "snd (chat_stream_on_store net cd c st message model (Some a) et)
          = chat_stream net cd c message model (Some (st ! a)) et"
    by (simp add: chat_stream_on_store_def build_messages_Some chat_stream_def)
  from a show "snd (chat_on_store net c (fst (chat_on_store net c st message model (Some a) et))
             message' model' (Some a) et')
        = snd (chat_on_store net c st message' model' (Some a) et')"
    by (simp add: chat_on_store_def build_messages_Some nth_append)
qed

theorem history_list_unchanged_witness:
  "(0::nat) < length [[JObj [(''role'', JStr ''system''), (''content'', JStr ''Be brief.'')]]] \<and>
   fst (chat_on_store (\<lambda>req. Inl ''down'') local_client
          [[JObj [(''role'', JStr ''system''), (''content'', JStr ''Be brief.'')]]]
          ''Hello'' ''llama3.2'' (Some 0) True)
     = [[JObj [(''role'', JStr ''system''), (''content'', JStr ''Be brief.'')]],
        [JObj [(''role'', JStr ''system''), (''content'', JStr ''Be brief.'')],
         JObj [(''role'', JStr ''user''), (''content'', JStr ''Hello'')]]] \<and>
   fst (chat_on_store (\<lambda>req. Inl ''down'') local_client
          [[JObj [(''role'', JStr ''system''), (''content'', JStr ''Be brief.'')]]]
          ''Hello'' ''llama3.2'' (Some 0) True) ! 0
     = [JObj [(''role'', JStr ''system''), (''content'', JStr ''Be brief.'')]]"
  using history_list_unchanged [of
      "[[JObj [(''role'', JStr ''system''), (''content'', JStr ''Be brief.'')]]]"
      "\<lambda>req. Inl ''down''" local_client "''Hello''" "''llama3.2''" "Some 0" True
      sample_codec 0]
  by (simp add: chat_on_store_def build_messages_Some user_message_def)

subsection \<open>Streaming\<close>

lemma lower_Hi: "py_lower ''Hi'' = ''hi''"
  by (simp add: py_lower_def lower_char_def char_of_eq_iff)

lemma chat_chunk_Hi:
  "chat_chunk et (JObj [(''choices'', JArr [JObj [(''delta'', JObj [(''content'', JStr ''Hi'')])]])])
     = Inr (Some (JStr ''Hi''))"
  by (simp add: chat_chunk_def and_then_def lower_Hi)

lemma strip_Hi_event: \<open>py_strip ''{"choices":[{"delta":{"content":"Hi"}}]}'' \<noteq> ''[DONE]''\<close>
  by (simp add: py_strip_def py_isspace_def)

lemma strip_done: "py_strip ''[DONE]'' = ''[DONE]''"
  by (simp add: py_strip_def py_isspace_def)

text \<open>
  Claim C5. A response with status 200 delivers the line
  \<^verbatim>\<open>data: {"choices":[{"delta":{"content":"Hi"}}]}\<close>, then the line \<^verbatim>\<open>data: [DONE]\<close>, then
  possibly more. The two lines are ASCII, so decoding them as UTF-8 returns their text,
  and \<^verbatim>\<open>json.loads\<close> parses the event to the object written below. Then \<^verbatim>\<open>chat_stream\<close>
  yields the one fragment \<^verbatim>\<open>Hi\<close> and ends normally, whatever follows the \<^verbatim>\<open>[DONE]\<close> line,
  for both values of \<^verbatim>\<open>enable_thinking\<close>.
\<close>

theorem chat_stream_Hi_then_done:
  assumes \<open>status_code r = 200\<close>
    and \<open>resp_lines r =
           ''data: {"choices":[{"delta":{"content":"Hi"}}]}'' # ''data: [DONE]'' # trailing\<close>
    and \<open>utf8_decode cd ''data: {"choices":[{"delta":{"content":"Hi"}}]}''
           = Some ''data: {"choices":[{"delta":{"content":"Hi"}}]}''\<close>
    and \<open>utf8_decode cd ''data: [DONE]'' = Some ''data: [DONE]''\<close>
    and \<open>json_loads cd ''{"choices":[{"delta":{"content":"Hi"}}]}''
           = Inr (JObj [(''choices'',
                          JArr [JObj [(''delta'', JObj [(''content'', JStr ''Hi'')])]])])\<close>
  shows \<open>snd (chat_stream (\<lambda>req. Inr r) cd c message model conversation_history enable_thinking)
           = ([JStr ''Hi''], None)\<close>
proof -
  have \<open>stream_lines cd (chat_chunk enable_thinking) (resp_broken r) (resp_lines r)
          = ([JStr ''Hi''], None)\<close>
    using assms(3-5) strip_Hi_event strip_done
    by (simp add: assms(2) chat_chunk_Hi yield_def data_payload_def)
  with assms(1) show ?thesis
    by (simp add: chat_stream_def chat_stream_send_def Let_def send_def)
qed

theorem chat_stream_Hi_then_done_witness:
  \<open>snd (chat_stream
          (\<lambda>req. Inr (sse_reply [''data: {"choices":[{"delta":{"content":"Hi"}}]}'',
                                  ''data: [DONE]'']))
          sample_codec local_client ''Hello'' ''llama3.2'' None False)
     = ([JStr ''Hi''], None)\<close>
  using chat_stream_Hi_then_done [of
      \<open>sse_reply [''data: {"choices":[{"delta":{"content":"Hi"}}]}'', ''data: [DONE]'']\<close>
      \<open>[]\<close> sample_codec local_client \<open>''Hello''\<close> \<open>''llama3.2''\<close> None False]
  by (simp add: sse_reply_def sample_codec_def)


lemma stream_lines_yields:
  assumes "good \<noteq> []" and "utf8_decode cd good = Some event"
    and "py_strip (data_payload event) \<noteq> ''[DONE]''"
    and "json_loads cd (data_payload event) = Inr data"
    and "chunk data = Inr (Some content)"
  shows "stream_lines cd chunk broken (good # after)
           = (content # fst (stream_lines cd chunk broken after),
              snd (stream_lines cd chunk broken after))"
  using assms by (simp add: yield_def)













subsection \<open>Failures and sentinel values\<close>

text \<open>When the network fails, each of the four operations returns its sentinel: the
  inline error text, the empty list, the empty list, the empty dict.\<close>

lemma sentinel_on_network_failure:
  assumes "\<And>req. net req = Inl failure"
  shows "snd (chat net c message model history enable_thinking)
           = Inr (JStr (''Connection error: '' @ failure))"
    and "snd (list_models net c) = Inr []"
    and "snd (generate_embedding net c model input_text) = Inr (JArr [])"
    and "snd (generate_completion net png c model prompt images) = Inr (JObj [])"
  using assms
  by (simp_all add: chat_def chat_send_def list_models_def generate_embedding_def
      generate_completion_def Let_def send_def and_then_def except_request_def)

text \<open>The same holds for an error status: \<^verbatim>\<open>chat\<close> and \<^verbatim>\<open>list_models\<close> test for 200,
  the other two call \<^verbatim>\<open>raise_for_status()\<close>.\<close>

lemma sentinel_on_error_status:
  assumes "\<And>req. net req = Inr r" and "400 \<le> status_code r" and "status_code r < 600"
  shows "snd (chat net c message model history enable_thinking)
           = Inr (JStr (''Error: '' @ str_int (status_code r) @ '' - '' @ resp_text r))"
    and "snd (list_models net c) = Inr []"
    and "snd (generate_embedding net c model input_text) = Inr (JArr [])"
    and "snd (generate_completion net png c model prompt images) = Inr (JObj [])"
  using assms
  by (simp_all add: chat_def chat_send_def list_models_def generate_embedding_def
      generate_completion_def Let_def send_def and_then_def except_request_def
      raise_for_status_def)

text \<open>
  Claim C1 does not hold of the code. The handlers catch \<open>RequestException\<close> only, and
  \<^verbatim>\<open>chat\<close> and \<^verbatim>\<open>generate_completion\<close> index the decoded body without a test: for a
  response with status 200 whose body is the JSON object \<^verbatim>\<open>{}\<close>, both raise a KeyError
  to the caller, whatever the other arguments are. \<^verbatim>\<open>list_models\<close> and
  \<^verbatim>\<open>generate_embedding\<close> test for the \<^verbatim>\<open>data\<close> array but not for the field they read from
  its items: for the body \<^verbatim>\<open>{"data": [{}]}\<close> they raise a KeyError as well.
\<close>

theorem missing_choices_raises_KeyError:
  "snd (chat (\<lambda>req. Inr (r\<lparr>status_code := 200, resp_json := Inr (JObj [])\<rparr>))
          c message model history enable_thinking) = Inl KeyError \<and>
   snd (generate_completion (\<lambda>req. Inr (r\<lparr>status_code := 200, resp_json := Inr (JObj [])\<rparr>))
          png c model prompt images) = Inl KeyError \<and>
   snd (list_models
          (\<lambda>req. Inr (r\<lparr>status_code := 200,
                          resp_json := Inr (JObj [(''data'', JArr [JObj []])])\<rparr>)) c)
     = Inl KeyError \<and>
   snd (generate_embedding
          (\<lambda>req. Inr (r\<lparr>status_code := 200,
                          resp_json := Inr (JObj [(''data'', JArr [JObj []])])\<rparr>))
          c model input_text)
     = Inl KeyError"
  by (simp add: chat_def chat_send_def generate_completion_def list_models_def
      generate_embedding_def message_content_def Let_def send_def and_then_def
      except_request_def json_of_def raise_for_status_def)

subsection \<open>Timeouts\<close>

text \<open>
  Claim C4 does not hold of the code. The requests of \<^verbatim>\<open>is_server_running\<close> (5 seconds),
  \<^verbatim>\<open>chat\<close> and \<^verbatim>\<open>chat_stream\<close> (180 seconds) carry a timeout; those of \<^verbatim>\<open>list_models\<close>,
  \<^verbatim>\<open>generate_embedding\<close>, \<^verbatim>\<open>generate_completion\<close> and \<^verbatim>\<open>stream_completion\<close> carry none.
\<close>

theorem timeouts_of_the_requests:
  "map timeout (fst (is_server_running net c)) = [Some 5] \<and>
   map timeout (fst (chat net c message model history enable_thinking)) = [Some 180] \<and>
   map timeout (fst (chat_stream net cd c message model history enable_thinking)) = [Some 180] \<and>
   map timeout (fst (list_models net c)) = [None] \<and>
   map timeout (fst (generate_embedding net c model input_text)) = [None] \<and>
   map timeout (fst (generate_completion net png c model prompt images)) = [None] \<and>
   map timeout (fst (stream_completion net cd png c model prompt images)) = [None]"
  by (simp add: is_server_running_def chat_def chat_send_def chat_stream_def
      chat_stream_send_def list_models_def generate_embedding_def generate_completion_def
      stream_completion_def Let_def models_request_def chat_request_def
      embeddings_request_def completion_request_def)

subsection \<open>Removal of thinking spans\<close>

lemma match_ci_iff:
  "match_ci pat s \<longleftrightarrow>
     length pat \<le> length s \<and> py_lower (take (length pat) s) = py_lower pat"
  by (induction pat s rule: match_ci.induct) (auto simp: py_lower_def)

lemma find_ci_room: "find_ci (p # ps) u = Some v \<Longrightarrow> length (p # ps) \<le> length u"
  by (induction u) (auto simp: match_ci_iff split: if_splits)

lemma find_ci_append:
  "find_ci (p # ps) u = Some v \<Longrightarrow> find_ci (p # ps) (u @ r) = Some (v @ r)"
proof (induction u)
  case Nil
  then show ?case by simp
next
  case (Cons x u)
  show ?case
  proof (cases "match_ci (p # ps) (x # u)")
    case True
    then have "match_ci (p # ps) (x # u @ r)" and "length ps \<le> length u"
      by (auto simp: match_ci_iff)
    with True Cons.prems show ?thesis by (auto simp del: match_ci.simps)
  next
    case False
    with Cons.prems have found: "find_ci (p # ps) u = Some v"
      by (simp del: match_ci.simps)
    then have "length (p # ps) \<le> length u" by (rule find_ci_room)
    with False have "\<not> match_ci (p # ps) (x # u @ r)"
      by (auto simp: match_ci_iff)
    with found Cons.IH show ?thesis by (simp del: match_ci.simps)
  qed
qed

lemma re_sub_kept:
  "kept_ok (p # ps) cl t rest \<Longrightarrow> re_sub (p # ps) cl (t @ rest) = t @ re_sub (p # ps) cl rest"
  by (induction t) (auto simp: span_starts_def split: option.splits)

lemma re_sub_span:
  assumes "py_lower tag = py_lower (p # ps)" and "find_ci cl u = Some r"
  shows "re_sub (p # ps) cl (tag @ u) = re_sub (p # ps) cl r"
proof -
  from assms(1) obtain x xs where tag: "tag = x # xs" by (cases tag) (auto simp: py_lower_def)
  have "length tag = length (p # ps)"
    using assms(1) by (metis length_map py_lower_def)
  with tag have len: "length xs = length ps" by simp
  have "match_ci (p # ps) (tag @ u)"
    using assms(1) \<open>length tag = length (p # ps)\<close> by (simp add: match_ci_iff)
  with tag len assms(2) show ?thesis by simp
qed

lemma re_sub_cut:
  "cut_ok (p # ps) (q # qs) pieces \<Longrightarrow>
   re_sub (p # ps) (q # qs) (concat (map render pieces)) = concat (map visible pieces)"
proof (induction pieces)
  case Nil
  show ?case by simp
next
  case (Cons piece pieces)
  show ?case
  proof (cases piece)
    case (Kept t)
    with Cons show ?thesis by (simp add: re_sub_kept)
  next
    case (Span tag body closing)
    with Cons.prems have "find_ci (q # qs) (body @ closing) = Some []"
      and tag: "py_lower tag = py_lower (p # ps)" and rest: "cut_ok (p # ps) (q # qs) pieces"
      by simp_all
    then have "find_ci (q # qs) ((body @ closing) @ concat (map render pieces))
                 = Some ([] @ concat (map render pieces))"
      by (intro find_ci_append)
    then have "re_sub (p # ps) (q # qs) (tag @ body @ closing @ concat (map render pieces))
                 = re_sub (p # ps) (q # qs) (concat (map render pieces))"
      using tag by (intro re_sub_span) simp_all
    with Span rest Cons.IH show ?thesis by simp
  qed
qed


lemma find_ci_split:
  "find_ci (q # qs) u = Some rest \<Longrightarrow>
   \<exists>body closing. u = body @ closing @ rest \<and> py_lower closing = py_lower (q # qs) \<and>
      find_ci (q # qs) (body @ closing) = Some []"
proof (induction u)
  case Nil
  then show ?case by simp
next
  case (Cons x u)
  show ?case
  proof (cases "match_ci (q # qs) (x # u)")
    case True
    let ?closing = "take (length (q # qs)) (x # u)"
    from True Cons.prems have rest: "rest = drop (length (q # qs)) (x # u)"
      by (simp del: match_ci.simps)
    from True have "match_ci (q # qs) ?closing"
      by (simp add: match_ci_iff del: match_ci.simps)
    moreover from True have "length ?closing = length (q # qs)"
      by (simp add: match_ci_iff del: match_ci.simps)
    ultimately have "find_ci (q # qs) ([] @ ?closing) = Some []"
      by (cases ?closing) (simp_all del: match_ci.simps)
    moreover from True have "py_lower ?closing = py_lower (q # qs)"
      by (simp add: match_ci_iff del: match_ci.simps)
    moreover have "x # u = [] @ ?closing @ rest"
      using rest by simp
    ultimately show ?thesis by blast
  next
    case False
    with Cons.prems have found: "find_ci (q # qs) u = Some rest"
      by (simp del: match_ci.simps)
    from Cons.IH [OF this] obtain body closing where u: "u = body @ closing @ rest"
      and low: "py_lower closing = py_lower (q # qs)"
      and first: "find_ci (q # qs) (body @ closing) = Some []"
      by blast
    from first have "length (q # qs) \<le> length (body @ closing)"
      by (rule find_ci_room)
    with False u have "\<not> match_ci (q # qs) (x # body @ closing)"
      by (simp add: match_ci_iff del: match_ci.simps)
    with first have "find_ci (q # qs) ((x # body) @ closing) = Some []"
      by (simp del: match_ci.simps)
    moreover from u have "x # u = (x # body) @ closing @ rest" by simp
    ultimately show ?thesis using low by blast
  qed
qed

lemma cut_exists:
  "\<exists>pieces. cut_ok (p # ps) (q # qs) pieces \<and> concat (map render pieces) = s"
proof (induction s rule: length_induct)
  case (1 s)
  show ?case
  proof (cases s)
    case Nil
    have "cut_ok (p # ps) (q # qs) [] \<and> concat (map render []) = s"
      using Nil by simp
    then show ?thesis by blast
  next
    case (Cons c cs)
    show ?thesis
    proof (cases "span_starts (p # ps) (q # qs) s")
      case True
      then have m: "match_ci (p # ps) s"
        and "find_ci (q # qs) (drop (length (p # ps)) s) \<noteq> None"
        by (simp_all add: span_starts_def)
      then obtain rest where found: "find_ci (q # qs) (drop (length (p # ps)) s) = Some rest"
        by blast
      then have "length rest \<le> length (drop (length (p # ps)) s)"
        by (rule find_ci_length)
      with Cons have "length rest < length s" by simp
      with "1.IH" obtain pieces where pieces: "cut_ok (p # ps) (q # qs) pieces"
        and rendered: "concat (map render pieces) = rest"
        by blast
      from find_ci_split [OF found] obtain body closing
        where parts: "drop (length (p # ps)) s = body @ closing @ rest"
        and low: "py_lower closing = py_lower (q # qs)"
        and first: "find_ci (q # qs) (body @ closing) = Some []"
        by blast
      let ?tag = "take (length (p # ps)) s"
      from m have tag: "py_lower ?tag = py_lower (p # ps)"
        by (simp add: match_ci_iff del: match_ci.simps)
      have "s = ?tag @ drop (length (p # ps)) s" by simp
      with parts have "s = ?tag @ body @ closing @ rest" by simp
      with rendered have "concat (map render (Span ?tag body closing # pieces)) = s" by simp
      moreover from tag low first pieces
      have "cut_ok (p # ps) (q # qs) (Span ?tag body closing # pieces)" by simp
      ultimately show ?thesis by blast
    next
      case False
      from Cons have "length cs < length s" by simp
      with "1.IH" obtain pieces where pieces: "cut_ok (p # ps) (q # qs) pieces"
        and rendered: "concat (map render pieces) = cs"
        by blast
      from False Cons rendered pieces
      have "cut_ok (p # ps) (q # qs) (Kept [c] # pieces)" by simp
      moreover from Cons rendered have "concat (map render (Kept [c] # pieces)) = s" by simp
      ultimately show ?thesis by blast
    qed
  qed
qed

lemma py_strip_trimmed:
  "py_strip s = [] \<or> (\<not> py_isspace (hd (py_strip s)) \<and> \<not> py_isspace (last (py_strip s)))"
proof (cases "dropWhile py_isspace s")
  case Nil
  have "py_strip s = []"
    unfolding py_strip_def Nil by simp
  then show ?thesis by simp
next
  case (Cons x t)
  then have x: "\<not> py_isspace x"
    using hd_dropWhile [of py_isspace s] by simp
  with Cons have shape: "py_strip s = x # rev (dropWhile py_isspace (rev t))"
    by (simp add: py_strip_def dropWhile_append3)
  show ?thesis
  proof (cases "dropWhile py_isspace (rev t) = []")
    case True
    with shape x show ?thesis by simp
  next
    case False
    then have "\<not> py_isspace (hd (dropWhile py_isspace (rev t)))"
      by (rule hd_dropWhile)
    with False shape x show ?thesis by (simp add: last_rev)
  qed
qed



text \<open>
  Claim C2, as amended. A successful chat call is a response with status 200 whose first
  choice has the string \<open>s\<close> as the content of its message. With \<^verbatim>\<open>enable_thinking\<close> true,
  \<^verbatim>\<open>chat\<close> returns \<open>s\<close> unchanged. With \<^verbatim>\<open>enable_thinking\<close> false, for every way of
  cutting \<open>s\<close> rightly at \<^verbatim>\<open><think>\<close> spans, and of cutting what is left when these spans
  are deleted rightly at \<^verbatim>\<open><thinking>\<close> spans, \<^verbatim>\<open>chat\<close> returns what is left when those are
  deleted too, trimmed; every \<open>s\<close> can be cut in this way; in particular
  \<^verbatim>\<open>A<think>secret</think>B\<close> gives \<^verbatim>\<open>AB\<close>; and for every \<open>s\<close> the result is a string with
  no whitespace at either end.
\<close>

theorem chat_thinking_cleanup:
  assumes "status_code r = 200" and "resp_json r = Inr result"
    and "message_content result = Inr (JStr s)"
  shows "snd (chat (\<lambda>req. Inr r) c message model history True) = Inr (JStr s) \<and>
         (cut_ok ''<think>'' ''</think>'' ps \<and> concat (map render ps) = s \<and>
          cut_ok ''<thinking>'' ''</thinking>'' qs \<and>
          concat (map render qs) = concat (map visible ps) \<longrightarrow>
            snd (chat (\<lambda>req. Inr r) c message model history False)
              = Inr (JStr (py_strip (concat (map visible qs))))) \<and>
         (\<exists>ps qs. cut_ok ''<think>'' ''</think>'' ps \<and> concat (map render ps) = s \<and>
            cut_ok ''<thinking>'' ''</thinking>'' qs \<and>
            concat (map render qs) = concat (map visible ps)) \<and>
         (s = ''A<think>secret</think>B'' \<longrightarrow>
            snd (chat (\<lambda>req. Inr r) c message model history False) = Inr (JStr ''AB'')) \<and>
         (\<exists>t. snd (chat (\<lambda>req. Inr r) c message model history False) = Inr (JStr t) \<and>
              (t = [] \<or> (\<not> py_isspace (hd t) \<and> \<not> py_isspace (last t))))"
proof -
  have run: "snd (chat (\<lambda>req. Inr r) c message model history enable_thinking)
               = (if enable_thinking then Inr (JStr s)
                  else Inr (JStr (py_strip (re_sub ''<thinking>'' ''</thinking>''
                                              (re_sub ''<think>'' ''</think>'' s)))))"
    for enable_thinking
    using assms
    by (simp add: chat_def chat_send_def Let_def send_def json_of_def and_then_def
        except_request_def)
  have unchanged: "snd (chat (\<lambda>req. Inr r) c message model history True) = Inr (JStr s)"
    by (simp add: run)
  have pieces: "snd (chat (\<lambda>req. Inr r) c message model history False)
                  = Inr (JStr (py_strip (concat (map visible qs))))"
    if "cut_ok ''<think>'' ''</think>'' ps \<and> concat (map render ps) = s \<and>
        cut_ok ''<thinking>'' ''</thinking>'' qs \<and>
        concat (map render qs) = concat (map visible ps)"
  proof -
    from that have "re_sub ''<think>'' ''</think>'' s = concat (map visible ps)"
      using re_sub_cut [of "CHR ''<''" "''think>''" "CHR ''<''" "''/think>''" ps] by auto
    moreover from that
    have "re_sub ''<thinking>'' ''</thinking>'' (concat (map visible ps))
            = concat (map visible qs)"
      using re_sub_cut [of "CHR ''<''" "''thinking>''" "CHR ''<''" "''/thinking>''" qs] by auto
    ultimately show ?thesis by (simp only: run if_False)
  qed
  have cut: "\<exists>ps qs. cut_ok ''<think>'' ''</think>'' ps \<and> concat (map render ps) = s \<and>
               cut_ok ''<thinking>'' ''</thinking>'' qs \<and>
               concat (map render qs) = concat (map visible ps)"
  proof -
    obtain ps where "cut_ok ''<think>'' ''</think>'' ps \<and> concat (map render ps) = s"
      using cut_exists [of "CHR ''<''" "''think>''" "CHR ''<''" "''/think>''" s] by blast
    moreover obtain qs where "cut_ok ''<thinking>'' ''</thinking>'' qs \<and>
        concat (map render qs) = concat (map visible ps)"
      using cut_exists [of "CHR ''<''" "''thinking>''" "CHR ''<''" "''/thinking>''"
          "concat (map visible ps)"] by blast
    ultimately show ?thesis by blast
  qed
  have example: "py_strip (re_sub ''<thinking>'' ''</thinking>''
                   (re_sub ''<think>'' ''</think>'' ''A<think>secret</think>B'')) = ''AB''"
    by code_simp
  have ab: "snd (chat (\<lambda>req. Inr r) c message model history False) = Inr (JStr ''AB'')"
    if "s = ''A<think>secret</think>B''"
    unfolding run that using example by simp
  have trimmed: "\<exists>t. snd (chat (\<lambda>req. Inr r) c message model history False) = Inr (JStr t) \<and>
                  (t = [] \<or> (\<not> py_isspace (hd t) \<and> \<not> py_isspace (last t)))"
    using py_strip_trimmed by (simp add: run)
  from unchanged pieces cut ab trimmed show ?thesis by blast
qed

theorem chat_thinking_cleanup_witness:
  "cut_ok ''<think>'' ''</think>''
     [Span ''<THINK>'' (''plan'' @ [CHR 0x0A] @ ''a < b'') ''</Think>'',
      Kept '' Hello <thinking>hm</THINKING>world ''] \<and>
   cut_ok ''<thinking>'' ''</thinking>''
     [Kept '' Hello '', Span ''<thinking>'' ''hm'' ''</THINKING>'', Kept ''world ''] \<and>
   snd (chat
          (\<lambda>req. Inr (chat_reply (''<THINK>plan'' @ [CHR 0x0A] @
                                   ''a < b</Think> Hello <thinking>hm</THINKING>world '')))
          local_client ''Hello'' ''llama3.2'' None False)
     = Inr (JStr ''Hello world'') \<and>
   snd (chat
          (\<lambda>req. Inr (chat_reply (''<THINK>plan'' @ [CHR 0x0A] @
                                   ''a < b</Think> Hello <thinking>hm</THINKING>world '')))
          local_client ''Hello'' ''llama3.2'' None True)
     = Inr (JStr (''<THINK>plan'' @ [CHR 0x0A] @
                  ''a < b</Think> Hello <thinking>hm</THINKING>world '')) \<and>
   snd (chat (\<lambda>req. Inr (chat_reply ''A<think>secret</think>B''))
          local_client ''Hello'' ''llama3.2'' None False)
     = Inr (JStr ''AB'')"
proof -
  let ?s = "''<THINK>plan'' @ [CHR 0x0A] @ ''a < b</Think> Hello <thinking>hm</THINKING>world ''"
  let ?ps = "[Span ''<THINK>'' (''plan'' @ [CHR 0x0A] @ ''a < b'') ''</Think>'',
              Kept '' Hello <thinking>hm</THINKING>world '']"
  let ?qs = "[Kept '' Hello '', Span ''<thinking>'' ''hm'' ''</THINKING>'', Kept ''world '']"
  have ps: "cut_ok ''<think>'' ''</think>'' ?ps" by code_simp
  have qs: "cut_ok ''<thinking>'' ''</thinking>'' ?qs" by code_simp
  have content: "message_content (JObj [(''choices'',
                    JArr [JObj [(''index'', JInt 0),
                                (''message'', JObj [(''role'', JStr ''assistant''),
                                                    (''content'', JStr t)])]])]) = Inr (JStr t)"
    for t
    by (simp add: message_content_def and_then_def)
  have strip: "py_strip '' Hello world '' = ''Hello world''"
    by (simp add: py_strip_def py_isspace_def)
  note first = chat_thinking_cleanup [of "chat_reply ?s" _ ?s local_client "''Hello''"
      "''llama3.2''" None ?ps ?qs, OF _ _ content]
  note second = chat_thinking_cleanup [of "chat_reply ''A<think>secret</think>B''" _
      "''A<think>secret</think>B''" local_client "''Hello''" "''llama3.2''" None, OF _ _ content]
  from ps qs strip first second show ?thesis
    by (simp add: chat_reply_def reply_def)
qed

text \<open>
  Claim C2 as stated fails: each substitution runs once over the text it is given. For
  the content \<^verbatim>\<open><thi<think>a</think>nk>secret</think>\<close> the call with \<^verbatim>\<open>enable_thinking\<close>
  false returns \<^verbatim>\<open><think>secret</think>\<close>, which is a substring delimited by the tags.
\<close>

theorem think_span_left_in_reply:
  "snd (chat
          (\<lambda>req. Inr (chat_reply ''<thi<think>a</think>nk>secret</think>''))
          local_client ''Hello'' ''llama3.2'' None False)
     = Inr (JStr ''<think>secret</think>'') \<and>
   has_span ''<think>'' ''</think>'' ''<think>secret</think>''"
  by code_simp

end
